theory Spec2Isabelle
  imports Complex_Main
begin

section \<open>SmartSpend: state store, expense intake and budget aggregation\<close>

text \<open>
  A shallow embedding of the client-side logic of the SmartSpend expense tracker: the
  state handlers of \<^verbatim>\<open>App.tsx\<close> (\<^verbatim>\<open>handleAddExpense\<close>, \<^verbatim>\<open>handleAddChatMessage\<close>,
  \<^verbatim>\<open>handleUpdateBudget\<close>, \<^verbatim>\<open>handleDeleteBudget\<close>, \<^verbatim>\<open>handleClearData\<close>), the chat pipeline
  \<^verbatim>\<open>handleSend\<close> of \<^verbatim>\<open>ChatInterface\<close>, and the aggregates of \<^verbatim>\<open>Dashboard\<close>
  (\<^verbatim>\<open>filteredExpenses\<close>, \<^verbatim>\<open>totalSpent\<close>, \<^verbatim>\<open>totalBudget\<close>, \<^verbatim>\<open>currentBalance\<close>,
  \<^verbatim>\<open>categoryData\<close>).

  Conventions of the model.
  \<^item> A JavaScript \<^verbatim>\<open>number\<close> is a \<^typ>\<open>real\<close>: sums and differences are exact, the
    rounding of IEEE doubles and the value NaN are not modelled.
  \<^item> A JavaScript string is a \<^typ>\<open>string\<close>, the list of the bytes of its UTF-8 form. The
    string functions of the platform are written out for ASCII strings and taken from the
    platform for every other string.
  \<^item> A \<^verbatim>\<open>Date\<close> is the record of its local calendar fields; two dates compare as their
    time values do, that is lexicographically on the fields.
  \<^item> React state is passed explicitly: a handler takes the \<^verbatim>\<open>AppState\<close> its updater
    \<^verbatim>\<open>setState(prev => ...)\<close> receives and returns the new one. A handler that also reads
    the \<^verbatim>\<open>state\<close> of the render that created it takes that state as a separate argument.
    The handlers run one at a time.
  \<^item> The external collaborators (the language-model parser, the persistence service, the
    clock and the number formatting of the platform) are arguments of the handlers.
\<close>

subsection \<open>Strings and the platform\<close>

text \<open>What the platform supplies. \<open>lowerNonAscii\<close> and \<open>trimNonAscii\<close> are what
  \<^verbatim>\<open>String.prototype.toLowerCase\<close> and \<^verbatim>\<open>String.prototype.trim\<close> return for a string that
  holds a character outside ASCII; \<open>numberToString\<close> is \<^verbatim>\<open>Number.prototype.toString\<close> and
  \<open>toLocaleString\<close> is \<^verbatim>\<open>toLocaleString('en-IN')\<close>.\<close>

record platform =
  lowerNonAscii :: "string \<Rightarrow> string"
  trimNonAscii :: "string \<Rightarrow> string"
  numberToString :: "nat \<Rightarrow> string"
  toLocaleString :: "real \<Rightarrow> string"

text \<open>A character is ASCII when its top bit is clear.\<close>

definition isAscii :: "char \<Rightarrow> bool" where
  "isAscii c = (\<not> digit7 c)"

text \<open>\<^verbatim>\<open>String.prototype.toLowerCase\<close>: in an ASCII string the letters A to Z are lowered and
  every other character is kept; any other string is lowered as the platform says.\<close>

definition lowerChar :: "char \<Rightarrow> char" where
  "lowerChar c =
     (case map_of (zip ''ABCDEFGHIJKLMNOPQRSTUVWXYZ'' ''abcdefghijklmnopqrstuvwxyz'') c of
        Some l \<Rightarrow> l
      | None \<Rightarrow> c)"

definition toLowerCase :: "platform \<Rightarrow> string \<Rightarrow> string" where
  "toLowerCase pf s = (if list_all isAscii s then map lowerChar s else lowerNonAscii pf s)"

text \<open>\<^verbatim>\<open>String.prototype.trim\<close>: the white space of ASCII is space, tab, line feed, vertical
  tab, form feed and carriage return; a string with a character outside ASCII (where the
  other white space and line terminators of Unicode live) is trimmed as the platform
  says.\<close>

definition isWhiteSpace :: "char \<Rightarrow> bool" where
  "isWhiteSpace c = (c \<in> set [CHR 0x20, CHR 0x09, CHR 0x0A, CHR 0x0B, CHR 0x0C, CHR 0x0D])"

definition trim :: "platform \<Rightarrow> string \<Rightarrow> string" where
  "trim pf s =
     (if list_all isAscii s
      then rev (dropWhile isWhiteSpace (rev (dropWhile isWhiteSpace s)))
      else trimNonAscii pf s)"

subsection \<open>Dates\<close>

record jsdate =
  fullYear :: int
  month :: nat
  dayOfMonth :: nat
  msOfDay :: nat

text \<open>\<^verbatim>\<open>a <= b\<close> on two dates.\<close>

definition date_le :: "jsdate \<Rightarrow> jsdate \<Rightarrow> bool" where
  "date_le a b =
     (fullYear a < fullYear b \<or>
      (fullYear a = fullYear b \<and>
        (month a < month b \<or>
         (month a = month b \<and>
           (dayOfMonth a < dayOfMonth b \<or>
            (dayOfMonth a = dayOfMonth b \<and> msOfDay a \<le> msOfDay b))))))"

text \<open>\<^verbatim>\<open>new Date(0)\<close>.\<close>

definition epoch :: jsdate where
  "epoch = \<lparr>fullYear = 1970, month = 0, dayOfMonth = 1, msOfDay = 0\<rparr>"

text \<open>\<^verbatim>\<open>d.setHours(23, 59, 59, 999)\<close>.\<close>

definition setHours_endOfDay :: "jsdate \<Rightarrow> jsdate" where
  "setHours_endOfDay d = d\<lparr>msOfDay := 86399999\<rparr>"

subsection \<open>Data model (types.ts)\<close>

type_synonym Category = string

text \<open>\<^verbatim>\<open>Omit<Expense, 'id' | 'date'>\<close>, and \<^verbatim>\<open>Expense\<close> as its extension. The \<^verbatim>\<open>date\<close> of a
  stored expense is held as the \<^verbatim>\<open>Date\<close> that \<^verbatim>\<open>new Date(e.date)\<close> builds from it.\<close>

record expenseData =
  amount :: real
  category :: Category
  description :: string

record expense = expenseData +
  expense_id :: string
  date :: jsdate

record budget =
  b_category :: Category
  limit :: real

datatype role = User | Assistant

record metadata =
  addedExpense :: "expense option"
  budgetLeft :: "real option"

record chatMessage =
  msg_id :: string
  msg_role :: role
  msg_text :: string
  timestamp :: jsdate
  msg_metadata :: "metadata option"

record AppState =
  expenses :: "expense list"
  budgets :: "budget list"
  chatHistory :: "chatMessage list"

subsection \<open>Constants (constants.ts)\<close>

definition DEFAULT_BUDGETS :: "budget list" where
  "DEFAULT_BUDGETS =
     [\<lparr>b_category = ''Food'', limit = 15000\<rparr>,
      \<lparr>b_category = ''Transport'', limit = 5000\<rparr>,
      \<lparr>b_category = ''Bills'', limit = 10000\<rparr>,
      \<lparr>b_category = ''Shopping'', limit = 8000\<rparr>,
      \<lparr>b_category = ''Health'', limit = 5000\<rparr>,
      \<lparr>b_category = ''Entertainment'', limit = 5000\<rparr>,
      \<lparr>b_category = ''Other'', limit = 5000\<rparr>]"

subsection \<open>Array helpers\<close>

text \<open>\<^verbatim>\<open>Array.prototype.findIndex\<close>: the first index whose element satisfies the test,
  \<open>-1\<close> when there is none.\<close>

fun findIndex :: "('a \<Rightarrow> bool) \<Rightarrow> 'a list \<Rightarrow> int" where
  "findIndex P [] = -1"
| "findIndex P (x # xs) =
     (if P x then 0 else (let i = findIndex P xs in if i = -1 then -1 else i + 1))"

text \<open>\<^verbatim>\<open>xs.map((x, i) => f(x, i))\<close>.\<close>

definition mapIndexed :: "('a \<Rightarrow> nat \<Rightarrow> 'b) \<Rightarrow> 'a list \<Rightarrow> 'b list" where
  "mapIndexed f xs = map (\<lambda>(x, i). f x i) (zip xs [0 ..< length xs])"

text \<open>\<^verbatim>\<open>xs.reduce((sum, x) => sum + f(x), 0)\<close>.\<close>

definition reduceSum :: "('a \<Rightarrow> real) \<Rightarrow> 'a list \<Rightarrow> real" where
  "reduceSum f xs = foldl (\<lambda>sum x. sum + f x) 0 xs"

text \<open>\<^verbatim>\<open>Array.from(new Set(xs))\<close>: the elements in the order of their first occurrence.\<close>

definition uniqueInOrder :: "'a list \<Rightarrow> 'a list" where
  "uniqueInOrder xs = foldl (\<lambda>seen x. if x \<in> set seen then seen else seen @ [x]) [] xs"

text \<open>\<^verbatim>\<open>x || 0\<close> on an optional number.\<close>

fun orZero :: "real option \<Rightarrow> real" where
  "orZero None = 0"
| "orZero (Some x) = (if x = 0 then 0 else x)"

subsection \<open>State store: budgets and the full wipe (App.tsx)\<close>

definition handleUpdateBudget :: "platform \<Rightarrow> string \<Rightarrow> real \<Rightarrow> AppState \<Rightarrow> AppState" where
  "handleUpdateBudget pf cat newLimit prev =
     (let existingIndex =
            findIndex (\<lambda>b. toLowerCase pf (b_category b) = toLowerCase pf cat) (budgets prev);
          newBudgets =
            (if existingIndex > -1
             then mapIndexed (\<lambda>b i. if int i = existingIndex then b\<lparr>limit := newLimit\<rparr> else b)
                    (budgets prev)
             else budgets prev @ [\<lparr>b_category = cat, limit = newLimit\<rparr>])
      in prev\<lparr>budgets := newBudgets\<rparr>)"

definition handleDeleteBudget :: "string \<Rightarrow> AppState \<Rightarrow> AppState" where
  "handleDeleteBudget cat prev =
     (let newBudgets = filter (\<lambda>b. b_category b \<noteq> cat) (budgets prev)
      in prev\<lparr>budgets := newBudgets\<rparr>)"

text \<open>\<^verbatim>\<open>handleClearData\<close>: \<open>confirmed\<close> is the answer of \<^verbatim>\<open>window.confirm\<close>, \<open>now\<close> the
  reading of \<^verbatim>\<open>new Date()\<close>. A failure of the server-side clear is caught and logged; the
  local reset happens either way.\<close>

definition resetMessage :: "jsdate \<Rightarrow> chatMessage" where
  "resetMessage now =
     \<lparr>msg_id = ''reset'', msg_role = Assistant,
      msg_text = ''All your data has been wiped. Let's start fresh.'',
      timestamp = now, msg_metadata = None\<rparr>"

definition handleClearData :: "bool \<Rightarrow> jsdate \<Rightarrow> AppState \<Rightarrow> AppState" where
  "handleClearData confirmed now s =
     (if confirmed
      then \<lparr>expenses = [], budgets = DEFAULT_BUDGETS, chatHistory = [resetMessage now]\<rparr>
      else s)"

text \<open>The invariant of the data model: budget categories are pairwise distinct when
  compared without regard to letter case.\<close>

definition budgets_unique :: "platform \<Rightarrow> budget list \<Rightarrow> bool" where
  "budgets_unique pf bs = distinct (map (\<lambda>b. toLowerCase pf (b_category b)) bs)"

subsection \<open>Collaborators\<close>

text \<open>What \<^verbatim>\<open>apiService.saveExpense\<close> can do: return the canonical expense read back from
  the database, return \<^verbatim>\<open>null\<close> (no signed-in user, an insert error, no row returned), or
  throw (for instance \<^verbatim>\<open>toISOString\<close> on an invalid date).\<close>

datatype save_outcome = Saved expense | SaveNull | SaveThrows

text \<open>What \<^verbatim>\<open>parseExpenseMessage\<close> returns when it does not return \<^verbatim>\<open>null\<close>: \<open>p_amount\<close> is
  \<open>Some a\<close> exactly when \<^verbatim>\<open>typeof parsed.amount === 'number'\<close>.\<close>

record parsed =
  p_amount :: "real option"
  p_category :: Category
  p_description :: string
  p_date :: "string option"

text \<open>One reading of the clock: \<^verbatim>\<open>Date.now()\<close> and \<^verbatim>\<open>new Date()\<close>.\<close>

record clock =
  nowMs :: nat
  nowDate :: jsdate

subsection \<open>Expense intake (App.tsx, ChatInterface)\<close>

text \<open>The object \<^verbatim>\<open>{ expense?, budgetLeft?, error? }\<close> that \<^verbatim>\<open>handleAddExpense\<close> resolves to.\<close>

record addResult =
  res_expense :: "expense option"
  res_budgetLeft :: "real option"
  res_error :: "string option"

definition saveFailedText :: string where
  "saveFailedText = ''I couldn't save that expense. Please check your connection.''"

definition addFailedText :: string where
  "addFailedText = ''Something went wrong while adding the expense.''"

text \<open>\<^verbatim>\<open>handleAddExpense\<close>. \<open>state\<close> is the state of the render that created the callback
  (\<^verbatim>\<open>state.expenses\<close>, \<^verbatim>\<open>state.budgets\<close>), \<open>prev\<close> the state the updater receives, \<open>now\<close>
  the reading of \<^verbatim>\<open>new Date()\<close>.\<close>

definition handleAddExpense ::
  "(expenseData \<Rightarrow> string option \<Rightarrow> save_outcome) \<Rightarrow> jsdate \<Rightarrow> AppState \<Rightarrow>
   expenseData \<Rightarrow> string option \<Rightarrow> AppState \<Rightarrow> addResult \<times> AppState" where
  "handleAddExpense saveExpense now state expenseData specificDate prev =
     (case saveExpense expenseData specificDate of
        SaveThrows \<Rightarrow>
          (\<lparr>res_expense = None, res_budgetLeft = None, res_error = Some addFailedText\<rparr>, prev)
      | SaveNull \<Rightarrow>
          (\<lparr>res_expense = None, res_budgetLeft = None, res_error = Some saveFailedText\<rparr>, prev)
      | Saved savedExpense \<Rightarrow>
          (let currentMonth = month now;
               currentYear = fullYear now;
               prev' = prev\<lparr>expenses := expenses prev @ [savedExpense]\<rparr>;
               spentBefore =
                 reduceSum amount
                   (filter (\<lambda>e. let d = date e in
                              category e = category expenseData \<and>
                              month d = currentMonth \<and> fullYear d = currentYear)
                      (expenses state));
               budgetLimit =
                 orZero (map_option limit
                   (find (\<lambda>b. b_category b = category expenseData) (budgets state)));
               left = budgetLimit - (spentBefore + amount expenseData)
           in (\<lparr>res_expense = Some savedExpense, res_budgetLeft = Some left,
                res_error = None\<rparr>, prev')))"

definition handleAddChatMessage :: "chatMessage \<Rightarrow> AppState \<Rightarrow> AppState" where
  "handleAddChatMessage message prev = prev\<lparr>chatHistory := chatHistory prev @ [message]\<rparr>"

text \<open>The rupee sign, as its three bytes.\<close>

definition rupee :: string where
  "rupee = [CHR 0xE2, CHR 0x82, CHR 0xB9]"

definition clarifyText :: string where
  "clarifyText =
     ''I couldn't catch that amount. Try saying 'Spent '' @ rupee @ ''500 on lunch'.''"

definition successText :: "platform \<Rightarrow> expense \<Rightarrow> real \<Rightarrow> string" where
  "successText pf e left =
     ''Got it! '' @ rupee @ toLocaleString pf (amount e) @ '' for '' @ [CHR 0x22] @
     description e @ [CHR 0x22] @ '' added to '' @ category e @ ''. You have '' @ rupee @
     toLocaleString pf left @ '' left there.''"

definition userMessage :: "platform \<Rightarrow> clock \<Rightarrow> string \<Rightarrow> chatMessage" where
  "userMessage pf c txt =
     \<lparr>msg_id = numberToString pf (nowMs c), msg_role = User, msg_text = txt,
      timestamp = nowDate c, msg_metadata = None\<rparr>"

definition assistantMessage ::
  "platform \<Rightarrow> clock \<Rightarrow> string \<Rightarrow> metadata option \<Rightarrow> chatMessage" where
  "assistantMessage pf c txt md =
     \<lparr>msg_id = numberToString pf (nowMs c + 1), msg_role = Assistant, msg_text = txt,
      timestamp = nowDate c, msg_metadata = md\<rparr>"

text \<open>\<^verbatim>\<open>textOverride || inputValue\<close>: the override when it is given and not empty.\<close>

definition textToSend :: "string option \<Rightarrow> string \<Rightarrow> string" where
  "textToSend textOverride inputValue =
     (case textOverride of
        Some t \<Rightarrow> if t \<noteq> [] then t else inputValue
      | None \<Rightarrow> inputValue)"

text \<open>\<^verbatim>\<open>handleSend\<close> of \<^verbatim>\<open>ChatInterface\<close>. \<open>addExpense\<close> and \<open>onAddChatMessage\<close> are the two
  props; \<open>sendClock\<close> is read when the user message is built, \<open>replyClock\<close> when the reply
  is built. Both collaborators catch their own exceptions, so the outer \<^verbatim>\<open>catch\<close> of the
  source is never entered.\<close>

definition handleSend ::
  "platform \<Rightarrow> (string \<Rightarrow> parsed option) \<Rightarrow>
   (expenseData \<Rightarrow> string option \<Rightarrow> AppState \<Rightarrow> addResult \<times> AppState) \<Rightarrow>
   (chatMessage \<Rightarrow> AppState \<Rightarrow> AppState) \<Rightarrow>
   clock \<Rightarrow> clock \<Rightarrow> string option \<Rightarrow> string \<Rightarrow> AppState \<Rightarrow> AppState" where
  "handleSend pf parseExpenseMessage addExpense onAddChatMessage sendClock replyClock
       textOverride inputValue current =
     (let txt = textToSend textOverride inputValue
      in if trim pf txt = [] then current
         else
           (let s1 = onAddChatMessage (userMessage pf sendClock txt) current;
                clarify = onAddChatMessage (assistantMessage pf replyClock clarifyText None) s1
            in case parseExpenseMessage txt of
                 None \<Rightarrow> clarify
               | Some p \<Rightarrow>
                   (case p_amount p of
                      None \<Rightarrow> clarify
                    | Some a \<Rightarrow>
                        (let (result, s2) =
                               addExpense
                                 \<lparr>amount = a, category = p_category p,
                                  description = p_description p\<rparr>
                                 (p_date p) s1;
                             onSuccess =
                               (case (res_expense result, res_budgetLeft result) of
                                  (Some e, Some left) \<Rightarrow>
                                    onAddChatMessage
                                      (assistantMessage pf replyClock (successText pf e left)
                                         (Some \<lparr>addedExpense = Some e, budgetLeft = Some left\<rparr>))
                                      s2
                                | _ \<Rightarrow> s2)
                         in case res_error result of
                              Some err \<Rightarrow>
                                if err \<noteq> []
                                then onAddChatMessage (assistantMessage pf replyClock err None) s2
                                else onSuccess
                            | None \<Rightarrow> onSuccess))))"

text \<open>How \<^verbatim>\<open>App\<close> and \<^verbatim>\<open>ChatInterface\<close> wire the pipeline.

  A typed message is sent by the \<^verbatim>\<open>handleSend\<close> of the current render. Its \<^verbatim>\<open>addExpense\<close> is
  the \<^verbatim>\<open>handleAddExpense\<close> that \<^verbatim>\<open>useCallback\<close> rebuilds whenever \<^verbatim>\<open>state.expenses\<close> or
  \<^verbatim>\<open>state.budgets\<close> change, so it closes over the current expenses and budgets.

  A voice transcript is sent by the \<^verbatim>\<open>onresult\<close> handler, which \<^verbatim>\<open>useEffect(..., [])\<close> installs
  once, when \<^verbatim>\<open>ChatInterface\<close> mounts. It calls the \<^verbatim>\<open>handleSend\<close> of that first render, whose
  \<^verbatim>\<open>addExpense\<close> closes over the state \<open>mounted\<close> of that render and whose \<^verbatim>\<open>inputValue\<close> is
  the empty string.\<close>

definition typedSend ::
  "platform \<Rightarrow> (string \<Rightarrow> parsed option) \<Rightarrow>
   (expenseData \<Rightarrow> string option \<Rightarrow> save_outcome) \<Rightarrow>
   clock \<Rightarrow> jsdate \<Rightarrow> clock \<Rightarrow> string \<Rightarrow> AppState \<Rightarrow> AppState" where
  "typedSend pf parseExpenseMessage saveExpense sendClock addNow replyClock inputValue current =
     handleSend pf parseExpenseMessage (handleAddExpense saveExpense addNow current)
       handleAddChatMessage sendClock replyClock None inputValue current"

definition voiceSend ::
  "platform \<Rightarrow> (string \<Rightarrow> parsed option) \<Rightarrow>
   (expenseData \<Rightarrow> string option \<Rightarrow> save_outcome) \<Rightarrow>
   clock \<Rightarrow> jsdate \<Rightarrow> clock \<Rightarrow> AppState \<Rightarrow> string \<Rightarrow> AppState \<Rightarrow> AppState" where
  "voiceSend pf parseExpenseMessage saveExpense sendClock addNow replyClock
       mounted transcript current =
     handleSend pf parseExpenseMessage (handleAddExpense saveExpense addNow mounted)
       handleAddChatMessage sendClock replyClock (Some transcript) [] current"

subsection \<open>Budget aggregation (Dashboard)\<close>

text \<open>\<open>startDate\<close> and \<open>endDate\<close> are the two date inputs: \<open>None\<close> for the empty string,
  otherwise the \<^verbatim>\<open>Date\<close> built from the input. \<open>now\<close> is \<^verbatim>\<open>new Date()\<close>.\<close>

definition filteredExpenses ::
  "jsdate \<Rightarrow> jsdate option \<Rightarrow> jsdate option \<Rightarrow> expense list \<Rightarrow> expense list" where
  "filteredExpenses now startDate endDate es =
     (if startDate = None \<and> endDate = None
      then filter (\<lambda>e. let d = date e in month d = month now \<and> fullYear d = fullYear now) es
      else filter (\<lambda>e.
             let d = date e;
                 start = (case startDate of Some sd \<Rightarrow> sd | None \<Rightarrow> epoch);
                 endOfDay = setHours_endOfDay (case endDate of Some ed \<Rightarrow> ed | None \<Rightarrow> now)
             in date_le start d \<and> date_le d endOfDay) es)"

definition totalSpent :: "expense list \<Rightarrow> real" where
  "totalSpent filtered = reduceSum amount filtered"

definition totalBudget :: "budget list \<Rightarrow> real" where
  "totalBudget bs = reduceSum limit bs"

definition currentBalance :: "budget list \<Rightarrow> expense list \<Rightarrow> real" where
  "currentBalance bs filtered = totalBudget bs - totalSpent filtered"

text \<open>The figure shown under "Remaining Budget", \<^verbatim>\<open>Math.max(0, currentBalance)\<close>, and the
  test \<^verbatim>\<open>currentBalance < 0\<close> that turns it red.\<close>

definition shownRemaining :: "budget list \<Rightarrow> expense list \<Rightarrow> real" where
  "shownRemaining bs filtered = max 0 (currentBalance bs filtered)"

definition overBudget :: "budget list \<Rightarrow> expense list \<Rightarrow> bool" where
  "overBudget bs filtered = (currentBalance bs filtered < 0)"

record categoryEntry =
  entry_name :: Category
  entry_value :: real

definition categoryData :: "budget list \<Rightarrow> expense list \<Rightarrow> categoryEntry list" where
  "categoryData bs filtered =
     (let categories = uniqueInOrder (map b_category bs @ map category filtered);
          data =
            filter (\<lambda>d. entry_value d > 0)
              (map (\<lambda>cat.
                      \<lparr>entry_name = cat,
                       entry_value =
                         reduceSum amount (filter (\<lambda>e. category e = cat) filtered)\<rparr>)
                 categories)
      in data)"

subsection \<open>Example values\<close>

text \<open>Concrete states and collaborators on which the properties below are exercised.\<close>

definition march15 :: jsdate where
  "march15 = \<lparr>fullYear = 2024, month = 2, dayOfMonth = 15, msOfDay = 36000000\<rparr>"

definition examplePlatform :: platform where
  "examplePlatform =
     \<lparr>lowerNonAscii = (\<lambda>s. s), trimNonAscii = (\<lambda>s. s),
      numberToString = (\<lambda>n. ''id''), toLocaleString = (\<lambda>x. ''n'')\<rparr>"

definition exampleClock :: clock where
  "exampleClock = \<lparr>nowMs = 1710496800000, nowDate = march15\<rparr>"

definition freshState :: AppState where
  "freshState = \<lparr>expenses = [], budgets = DEFAULT_BUDGETS, chatHistory = []\<rparr>"

definition groceries :: expense where
  "groceries =
     \<lparr>amount = 12000, category = ''Food'', description = ''groceries'',
      expense_id = ''41'',
      date = \<lparr>fullYear = 2024, month = 2, dayOfMonth = 15, msOfDay = 32400000\<rparr>\<rparr>"

text \<open>The state of the spec's worked example: budget Food 15000, 12000 spent on Food this
  month; and the same state before the 12000 were spent.\<close>

definition foodState :: AppState where
  "foodState =
     \<lparr>expenses = [groceries], budgets = [\<lparr>b_category = ''Food'', limit = 15000\<rparr>],
      chatHistory = []\<rparr>"

definition foodStateBefore :: AppState where
  "foodStateBefore =
     \<lparr>expenses = [], budgets = [\<lparr>b_category = ''Food'', limit = 15000\<rparr>], chatHistory = []\<rparr>"





text \<open>A parser that reads every message as "2000 on Food", one that fails, one that returns
  an object without a numeric amount, a save that succeeds and one that returns \<^verbatim>\<open>null\<close>.\<close>

definition dinnerData :: expenseData where
  "dinnerData = \<lparr>amount = 2000, category = ''Food'', description = ''dinner''\<rparr>"

definition dinner :: expense where
  "dinner =
     \<lparr>amount = 2000, category = ''Food'', description = ''dinner'',
      expense_id = ''42'', date = march15\<rparr>"

definition parseDinner :: "string \<Rightarrow> parsed option" where
  "parseDinner txt =
     Some \<lparr>p_amount = Some 2000, p_category = ''Food'', p_description = ''dinner'',
           p_date = None\<rparr>"

definition parseFails :: "string \<Rightarrow> parsed option" where
  "parseFails txt = None"

definition parseNoAmount :: "string \<Rightarrow> parsed option" where
  "parseNoAmount txt =
     Some \<lparr>p_amount = None, p_category = ''Other'', p_description = ''thing'', p_date = None\<rparr>"

definition saveDinner :: "expenseData \<Rightarrow> string option \<Rightarrow> save_outcome" where
  "saveDinner ed sd = Saved dinner"

text \<open>An expense of amount zero, a refund entered as a negative amount, and an expense of
  the month before.\<close>

definition freeSample :: expense where
  "freeSample =
     \<lparr>amount = 0, category = ''Gift'', description = ''free sample'',
      expense_id = ''43'', date = march15\<rparr>"

definition refund :: expense where
  "refund =
     \<lparr>amount = -50, category = ''Shopping'', description = ''returned shirt'',
      expense_id = ''44'', date = march15\<rparr>"

definition februaryRent :: expense where
  "februaryRent =
     \<lparr>amount = 9000, category = ''Bills'', description = ''rent'',
      expense_id = ''12'',
      date = \<lparr>fullYear = 2024, month = 1, dayOfMonth = 1, msOfDay = 0\<rparr>\<rparr>"

definition saveReturnsNull :: "expenseData \<Rightarrow> string option \<Rightarrow> save_outcome" where
  "saveReturnsNull ed sd = SaveNull"

section \<open>Properties\<close>

subsection \<open>Array helpers\<close>

lemma findIndex_ge: "-1 \<le> findIndex P xs"
  by (induction xs) (auto simp: Let_def)

lemma findIndex_none: "findIndex P xs = -1 \<longleftrightarrow> (\<forall>x \<in> set xs. \<not> P x)"
proof (induction xs)
  case Nil
  show ?case by simp
next
  case (Cons x xs)
  have "-1 \<le> findIndex P xs" by (rule findIndex_ge)
  with Cons show ?case by (auto simp: Let_def)
qed

lemma findIndex_first:
  assumes "findIndex P xs \<noteq> -1"
  shows "\<exists>i < length xs. findIndex P xs = int i \<and> P (xs ! i) \<and> (\<forall>j < i. \<not> P (xs ! j))"
  using assms
proof (induction xs)
  case Nil
  then show ?case by simp
next
  case (Cons x xs)
  show ?case
  proof (cases "P x")
    case True
    then show ?thesis by (intro exI [of _ 0]) simp
  next
    case False
    with Cons.prems have ne: "findIndex P xs \<noteq> -1" by (auto simp: Let_def split: if_splits)
    from Cons.IH [OF ne] obtain i where i: "i < length xs" "findIndex P xs = int i"
      "P (xs ! i)" "\<forall>j < i. \<not> P (xs ! j)" by blast
    have "\<forall>j < Suc i. \<not> P ((x # xs) ! j)"
    proof (intro allI impI)
      fix j assume "j < Suc i"
      then show "\<not> P ((x # xs) ! j)" using False i(4) by (cases j) auto
    qed
    with i False ne show ?thesis
      by (intro exI [of _ "Suc i"]) (simp add: Let_def)
  qed
qed

lemma mapIndexed_update:
  assumes "i < length xs"
  shows "mapIndexed (\<lambda>x j. if j = i then f x else x) xs = xs[i := f (xs ! i)]"
  by (rule nth_equalityI) (use assms in \<open>auto simp: mapIndexed_def nth_list_update\<close>)

lemma default_unique: "budgets_unique pf DEFAULT_BUDGETS"
  by (simp add: budgets_unique_def DEFAULT_BUDGETS_def toLowerCase_def isAscii_def lowerChar_def)

lemma freshState_unique: "budgets_unique pf (budgets freshState)"
  by (simp add: freshState_def default_unique)

lemma budgets_handleUpdateBudget_found:
  assumes "findIndex (\<lambda>b. toLowerCase pf (b_category b) = toLowerCase pf cat) (budgets s) = int i"
    and "i < length (budgets s)"
  shows "budgets (handleUpdateBudget pf cat l s) = (budgets s)[i := (budgets s ! i)\<lparr>limit := l\<rparr>]"
  using assms by (simp add: handleUpdateBudget_def Let_def mapIndexed_update)

lemma budgets_handleUpdateBudget_missing:
  assumes "\<forall>b \<in> set (budgets s). toLowerCase pf (b_category b) \<noteq> toLowerCase pf cat"
  shows "budgets (handleUpdateBudget pf cat l s) = budgets s @ [\<lparr>b_category = cat, limit = l\<rparr>]"
proof -
  have "findIndex (\<lambda>b. toLowerCase pf (b_category b) = toLowerCase pf cat) (budgets s) = -1"
    using assms by (simp add: findIndex_none)
  then show ?thesis by (simp add: handleUpdateBudget_def Let_def)
qed

lemma map_category_update:
  "i < length bs \<Longrightarrow> map b_category (bs[i := (bs ! i)\<lparr>limit := l\<rparr>]) = map b_category bs"
  by (rule nth_equalityI) (auto simp: nth_list_update)

subsection \<open>Budget upsert\<close>

text \<open>
  Claim C6. \<^verbatim>\<open>handleUpdateBudget\<close> matches an existing budget by comparing category names
  without regard to letter case. If some entry matches, the new list is the old list with
  the limit of the first matching entry replaced: that entry keeps its stored category
  name and its position, the length of the list and every other entry are unchanged. If
  no entry matches, the new list is the old list with the entry \<open>{category, limit}\<close>
  appended at the end. Expenses and chat history are not touched.
\<close>

theorem handleUpdateBudget_upsert:
  "((\<exists>b \<in> set (budgets s). toLowerCase pf (b_category b) = toLowerCase pf cat) \<longrightarrow>
      (\<exists>i < length (budgets s).
         toLowerCase pf (b_category (budgets s ! i)) = toLowerCase pf cat \<and>
         (\<forall>j < i. toLowerCase pf (b_category (budgets s ! j)) \<noteq> toLowerCase pf cat) \<and>
         budgets (handleUpdateBudget pf cat l s) = (budgets s)[i := (budgets s ! i)\<lparr>limit := l\<rparr>] \<and>
         length (budgets (handleUpdateBudget pf cat l s)) = length (budgets s) \<and>
         map b_category (budgets (handleUpdateBudget pf cat l s)) = map b_category (budgets s))) \<and>
   ((\<forall>b \<in> set (budgets s). toLowerCase pf (b_category b) \<noteq> toLowerCase pf cat) \<longrightarrow>
      budgets (handleUpdateBudget pf cat l s) = budgets s @ [\<lparr>b_category = cat, limit = l\<rparr>]) \<and>
   expenses (handleUpdateBudget pf cat l s) = expenses s \<and>
   chatHistory (handleUpdateBudget pf cat l s) = chatHistory s"
proof (intro conjI impI)
  let ?P = "\<lambda>b. toLowerCase pf (b_category b) = toLowerCase pf cat"
  assume "\<exists>b \<in> set (budgets s). ?P b"
  then have "findIndex ?P (budgets s) \<noteq> -1" by (simp add: findIndex_none)
  from findIndex_first [OF this] obtain i where i: "i < length (budgets s)"
    "findIndex ?P (budgets s) = int i" "?P (budgets s ! i)" "\<forall>j < i. \<not> ?P (budgets s ! j)"
    by blast
  have upd: "budgets (handleUpdateBudget pf cat l s) = (budgets s)[i := (budgets s ! i)\<lparr>limit := l\<rparr>]"
    using i(2) i(1) by (rule budgets_handleUpdateBudget_found)
  show "\<exists>i < length (budgets s).
         toLowerCase pf (b_category (budgets s ! i)) = toLowerCase pf cat \<and>
         (\<forall>j < i. toLowerCase pf (b_category (budgets s ! j)) \<noteq> toLowerCase pf cat) \<and>
         budgets (handleUpdateBudget pf cat l s) = (budgets s)[i := (budgets s ! i)\<lparr>limit := l\<rparr>] \<and>
         length (budgets (handleUpdateBudget pf cat l s)) = length (budgets s) \<and>
         map b_category (budgets (handleUpdateBudget pf cat l s)) = map b_category (budgets s)"
    using i upd by (intro exI [of _ i]) (simp add: map_category_update)
next
  assume "\<forall>b \<in> set (budgets s). toLowerCase pf (b_category b) \<noteq> toLowerCase pf cat"
  then show "budgets (handleUpdateBudget pf cat l s) = budgets s @ [\<lparr>b_category = cat, limit = l\<rparr>]"
    by (rule budgets_handleUpdateBudget_missing)
next
  show "expenses (handleUpdateBudget pf cat l s) = expenses s"
    by (simp add: handleUpdateBudget_def Let_def)
  show "chatHistory (handleUpdateBudget pf cat l s) = chatHistory s"
    by (simp add: handleUpdateBudget_def Let_def)
qed

definition busyState :: AppState where
  "busyState =
     \<lparr>expenses =
        [\<lparr>amount = 12000, category = ''Food'', description = ''groceries'',
          expense_id = ''41'',
          date = \<lparr>fullYear = 2024, month = 2, dayOfMonth = 3, msOfDay = 0\<rparr>\<rparr>],
      budgets = [\<lparr>b_category = ''Food'', limit = 15000\<rparr>, \<lparr>b_category = ''Gym'', limit = 900\<rparr>],
      chatHistory = []\<rparr>"

theorem handleUpdateBudget_upsert_witness:
  "(\<exists>b \<in> set (budgets freshState). toLowerCase examplePlatform (b_category b) = toLowerCase examplePlatform ''FOOD'') \<and>
   toLowerCase examplePlatform ''Gym'' \<notin> (\<lambda>b. toLowerCase examplePlatform (b_category b)) ` set (budgets freshState) \<and>
   map b_category (budgets (handleUpdateBudget examplePlatform ''FOOD'' 100 freshState)) =
     map b_category (budgets freshState) \<and>
   budgets (handleUpdateBudget examplePlatform ''FOOD'' 100 freshState) =
     \<lparr>b_category = ''Food'', limit = 100\<rparr> # tl DEFAULT_BUDGETS \<and>
   budgets (handleUpdateBudget examplePlatform ''Gym'' 900 freshState) =
     budgets freshState @ [\<lparr>b_category = ''Gym'', limit = 900\<rparr>]"
proof -
  have h1: "\<exists>b \<in> set (budgets freshState). toLowerCase examplePlatform (b_category b) = toLowerCase examplePlatform ''FOOD''"
    by (simp add: freshState_def DEFAULT_BUDGETS_def toLowerCase_def isAscii_def lowerChar_def)
  have h2: "\<forall>b \<in> set (budgets freshState). toLowerCase examplePlatform (b_category b) \<noteq> toLowerCase examplePlatform ''Gym''"
    by (simp add: freshState_def DEFAULT_BUDGETS_def toLowerCase_def isAscii_def lowerChar_def)
  from handleUpdateBudget_upsert [where s = freshState and pf = examplePlatform and cat = "''FOOD''" and l = 100] h1
  obtain i where i: "i < length (budgets freshState)"
    "toLowerCase examplePlatform (b_category (budgets freshState ! i)) = toLowerCase examplePlatform ''FOOD''"
    "\<forall>j < i. toLowerCase examplePlatform (b_category (budgets freshState ! j)) \<noteq> toLowerCase examplePlatform ''FOOD''"
    "budgets (handleUpdateBudget examplePlatform ''FOOD'' 100 freshState) =
       (budgets freshState)[i := (budgets freshState ! i)\<lparr>limit := 100\<rparr>]"
    "map b_category (budgets (handleUpdateBudget examplePlatform ''FOOD'' 100 freshState)) =
       map b_category (budgets freshState)"
    by blast
  have "toLowerCase examplePlatform (b_category (budgets freshState ! 0)) = toLowerCase examplePlatform ''FOOD''"
    by (simp add: freshState_def DEFAULT_BUDGETS_def toLowerCase_def isAscii_def lowerChar_def)
  with i(3) have "i = 0" by (cases i) auto
  with i(4) have a: "budgets (handleUpdateBudget examplePlatform ''FOOD'' 100 freshState) =
     \<lparr>b_category = ''Food'', limit = 100\<rparr> # tl DEFAULT_BUDGETS"
    by (simp add: freshState_def DEFAULT_BUDGETS_def)
  from handleUpdateBudget_upsert [where s = freshState and pf = examplePlatform and cat = "''Gym''" and l = 900] h2
  have b: "budgets (handleUpdateBudget examplePlatform ''Gym'' 900 freshState) =
     budgets freshState @ [\<lparr>b_category = ''Gym'', limit = 900\<rparr>]"
    by blast
  from h2 have h2': "toLowerCase examplePlatform ''Gym'' \<notin>
      (\<lambda>b. toLowerCase examplePlatform (b_category b)) ` set (budgets freshState)"
    by (auto simp: image_iff)
  from h1 h2' i(5) a b show ?thesis by blast
qed

lemma budgets_handleDeleteBudget:
  "budgets (handleDeleteBudget key s) = filter (\<lambda>b. b_category b \<noteq> key) (budgets s)"
  by (simp add: handleDeleteBudget_def)

lemma budgets_unique_append:
  "budgets_unique pf (bs @ [\<lparr>b_category = cat, limit = l\<rparr>]) \<longleftrightarrow>
     budgets_unique pf bs \<and> (\<forall>b \<in> set bs. toLowerCase pf (b_category b) \<noteq> toLowerCase pf cat)"
  by (auto simp: budgets_unique_def image_iff)

lemma budgets_unique_filter: "budgets_unique pf bs \<Longrightarrow> budgets_unique pf (filter P bs)"
  by (simp add: budgets_unique_def distinct_map_filter)

lemma budgets_unique_handleUpdateBudget:
  assumes "budgets_unique pf (budgets s)"
  shows "budgets_unique pf (budgets (handleUpdateBudget pf cat l s))"
proof (cases "\<exists>b \<in> set (budgets s). toLowerCase pf (b_category b) = toLowerCase pf cat")
  case True
  let ?P = "\<lambda>b. toLowerCase pf (b_category b) = toLowerCase pf cat"
  from True have "findIndex ?P (budgets s) \<noteq> -1" by (simp add: findIndex_none)
  from findIndex_first [OF this] obtain i where i: "i < length (budgets s)"
    "findIndex ?P (budgets s) = int i" by blast
  have "budgets (handleUpdateBudget pf cat l s) = (budgets s)[i := (budgets s ! i)\<lparr>limit := l\<rparr>]"
    using i(2) i(1) by (rule budgets_handleUpdateBudget_found)
  then have "map b_category (budgets (handleUpdateBudget pf cat l s)) = map b_category (budgets s)"
    using i(1) by (simp add: map_category_update)
  then have "map (toLowerCase pf) (map b_category (budgets (handleUpdateBudget pf cat l s))) =
      map (toLowerCase pf) (map b_category (budgets s))"
    by simp
  then have "map (\<lambda>b. toLowerCase pf (b_category b)) (budgets (handleUpdateBudget pf cat l s)) =
      map (\<lambda>b. toLowerCase pf (b_category b)) (budgets s)"
    by (simp add: o_def)
  with assms show ?thesis by (simp add: budgets_unique_def)
next
  case False
  then have none: "\<forall>b \<in> set (budgets s). toLowerCase pf (b_category b) \<noteq> toLowerCase pf cat" by blast
  then have "budgets (handleUpdateBudget pf cat l s) = budgets s @ [\<lparr>b_category = cat, limit = l\<rparr>]"
    by (rule budgets_handleUpdateBudget_missing)
  with assms none show ?thesis by (simp add: budgets_unique_append)
qed

subsection \<open>The uniqueness invariant of budgets\<close>

text \<open>
  Claim C9. From a state whose budget categories are pairwise distinct when compared
  without regard to letter case, each budget operation yields such a state again: the
  upsert, the delete by exact category key, and the full wipe (whether or not the user
  confirms it).
\<close>

theorem budget_operations_keep_unique:
  assumes "budgets_unique pf (budgets s)"
  shows "budgets_unique pf (budgets (handleUpdateBudget pf cat l s)) \<and>
         budgets_unique pf (budgets (handleDeleteBudget key s)) \<and>
         budgets_unique pf (budgets (handleClearData confirmed now s))"
proof (intro conjI)
  show "budgets_unique pf (budgets (handleUpdateBudget pf cat l s))"
    using assms by (rule budgets_unique_handleUpdateBudget)
  show "budgets_unique pf (budgets (handleDeleteBudget key s))"
    using assms by (simp add: budgets_handleDeleteBudget budgets_unique_filter)
  show "budgets_unique pf (budgets (handleClearData confirmed now s))"
    using assms by (simp add: handleClearData_def default_unique)
qed

theorem budget_operations_keep_unique_witness:
  "budgets_unique examplePlatform (budgets freshState) \<and>
   budgets_unique examplePlatform (budgets (handleUpdateBudget examplePlatform ''food'' 100 freshState)) \<and>
   budgets_unique examplePlatform (budgets (handleDeleteBudget ''Bills'' freshState)) \<and>
   budgets_unique examplePlatform (budgets (handleClearData True march15 freshState))"
  using budget_operations_keep_unique [OF freshState_unique, where pf = examplePlatform and cat = "''food''" and l = 100 and key = "''Bills''" and confirmed = True and now = march15]
    freshState_unique by blast

subsection \<open>Full wipe\<close>

text \<open>
  Claim C4. Once confirmed, the full wipe turns any prior state into the state with no
  expenses, the seven default budgets (Food 15000, Transport 5000, Bills 10000, Shopping
  8000, Health 5000, Entertainment 5000, Other 5000) and a chat history of exactly one
  message, the assistant's confirmation.
\<close>

theorem handleClearData_full_wipe:
  "handleClearData True now s =
     \<lparr>expenses = [],
      budgets =
        [\<lparr>b_category = ''Food'', limit = 15000\<rparr>,
         \<lparr>b_category = ''Transport'', limit = 5000\<rparr>,
         \<lparr>b_category = ''Bills'', limit = 10000\<rparr>,
         \<lparr>b_category = ''Shopping'', limit = 8000\<rparr>,
         \<lparr>b_category = ''Health'', limit = 5000\<rparr>,
         \<lparr>b_category = ''Entertainment'', limit = 5000\<rparr>,
         \<lparr>b_category = ''Other'', limit = 5000\<rparr>],
      chatHistory =
        [\<lparr>msg_id = ''reset'', msg_role = Assistant,
          msg_text = ''All your data has been wiped. Let's start fresh.'',
          timestamp = now, msg_metadata = None\<rparr>]\<rparr>"
  by (simp add: handleClearData_def DEFAULT_BUDGETS_def resetMessage_def)

theorem handleClearData_full_wipe_witness:
  "expenses (handleClearData True march15 foodState) = [] \<and>
   budgets (handleClearData True march15 foodState) = DEFAULT_BUDGETS \<and>
   length (chatHistory (handleClearData True march15 foodState)) = 1 \<and>
   map msg_role (chatHistory (handleClearData True march15 foodState)) = [Assistant]"
  by (simp add: handleClearData_full_wipe [of march15 foodState] DEFAULT_BUDGETS_def)

subsection \<open>Budget delete\<close>




lemma foldl_plus_sum_list:
  "foldl (\<lambda>sum x. sum + f x) a xs = a + sum_list (map f xs)" for a :: real
  by (induction xs arbitrary: a) (simp_all add: add.assoc)

lemma reduceSum_sum_list: "reduceSum f xs = sum_list (map f xs)"
  by (simp add: reduceSum_def foldl_plus_sum_list)

lemma orZero_limit:
  "orZero (map_option limit r) = (case r of None \<Rightarrow> 0 | Some b \<Rightarrow> limit b)"
  by (cases r) simp_all

lemma handleAddExpense_saved:
  assumes "saveExpense ed sd = Saved e"
  shows "handleAddExpense saveExpense now state ed sd prev =
     (\<lparr>res_expense = Some e,
       res_budgetLeft = Some
         ((case find (\<lambda>b. b_category b = category ed) (budgets state) of
             None \<Rightarrow> 0 | Some b \<Rightarrow> limit b) -
          (sum_list (map amount
              (filter (\<lambda>x. category x = category ed \<and> month (date x) = month now \<and>
                             fullYear (date x) = fullYear now) (expenses state))) +
           amount ed)),
       res_error = None\<rparr>,
      prev\<lparr>expenses := expenses prev @ [e]\<rparr>)"
  using assms by (simp add: handleAddExpense_def Let_def reduceSum_sum_list orZero_limit)

lemma handleAddExpense_null:
  assumes "saveExpense ed sd = SaveNull"
  shows "handleAddExpense saveExpense now state ed sd prev =
     (\<lparr>res_expense = None, res_budgetLeft = None, res_error = Some saveFailedText\<rparr>, prev)"
  using assms by (simp add: handleAddExpense_def)

lemma handleAddExpense_throws:
  assumes "saveExpense ed sd = SaveThrows"
  shows "handleAddExpense saveExpense now state ed sd prev =
     (\<lparr>res_expense = None, res_budgetLeft = None, res_error = Some addFailedText\<rparr>, prev)"
  using assms by (simp add: handleAddExpense_def)

lemma handleSend_blank:
  assumes "trim pf (textToSend ov iv) = []"
  shows "handleSend pf parse addE addM cs cr ov iv s = s"
  using assms by (simp add: handleSend_def textToSend_def Let_def)

lemma handleSend_clarify:
  assumes "trim pf (textToSend ov iv) \<noteq> []"
    and "parse (textToSend ov iv) = None \<or>
         (\<exists>p. parse (textToSend ov iv) = Some p \<and> p_amount p = None)"
  shows "handleSend pf parse addE addM cs cr ov iv s =
     addM (assistantMessage pf cr clarifyText None) (addM (userMessage pf cs (textToSend ov iv)) s)"
  using assms by (auto simp: handleSend_def textToSend_def Let_def)

lemma handleSend_error:
  assumes "trim pf (textToSend ov iv) \<noteq> []"
    and "parse (textToSend ov iv) = Some p" and "p_amount p = Some a"
    and "addE \<lparr>amount = a, category = p_category p, description = p_description p\<rparr> (p_date p)
           (addM (userMessage pf cs (textToSend ov iv)) s) = (result, sa)"
    and "res_error result = Some err" and "err \<noteq> []"
  shows "handleSend pf parse addE addM cs cr ov iv s = addM (assistantMessage pf cr err None) sa"
  using assms by (simp add: handleSend_def textToSend_def Let_def)

lemma handleSend_success:
  assumes "trim pf (textToSend ov iv) \<noteq> []"
    and "parse (textToSend ov iv) = Some p" and "p_amount p = Some a"
    and "addE \<lparr>amount = a, category = p_category p, description = p_description p\<rparr> (p_date p)
           (addM (userMessage pf cs (textToSend ov iv)) s) = (result, sa)"
    and "res_error result = None" and "res_expense result = Some e"
    and "res_budgetLeft result = Some left"
  shows "handleSend pf parse addE addM cs cr ov iv s =
     addM (assistantMessage pf cr (successText pf e left)
             (Some \<lparr>addedExpense = Some e, budgetLeft = Some left\<rparr>)) sa"
  using assms by (simp add: handleSend_def textToSend_def Let_def)

lemma texts_distinct:
  "saveFailedText \<noteq> clarifyText" "addFailedText \<noteq> clarifyText" "saveFailedText \<noteq> []"
  "addFailedText \<noteq> []" "saveFailedText \<noteq> addFailedText"
  by (simp_all add: saveFailedText_def addFailedText_def clarifyText_def)

lemma handleAddChatMessage_twice:
  "handleAddChatMessage m2 (handleAddChatMessage m1 s) = s\<lparr>chatHistory := chatHistory s @ [m1, m2]\<rparr>"
  by (simp add: handleAddChatMessage_def)

lemma exampleText_nonblank: "trim pf (textToSend None ''2000 on dinner'') \<noteq> []"
  by (simp add: trim_def textToSend_def isAscii_def isWhiteSpace_def)

lemma voiceText_nonblank: "trim pf (textToSend (Some ''2000 on dinner'') []) \<noteq> []"
  by (simp add: trim_def textToSend_def isAscii_def isWhiteSpace_def)

subsection \<open>Expense intake: a parse that yields no amount\<close>

text \<open>
  Claim C2. For a message that is sent (the text, that is the override when one is given
  and not empty and the input otherwise, is not blank) and whose parse fails or yields no
  numeric amount, the chat log gains the user message and exactly one assistant message,
  whose text asks to restate the amount: "I couldn't catch that amount. Try saying 'Spent
  (rupee sign)500 on lunch'."; no expense is created and no budget changes. This holds
  whatever \<^verbatim>\<open>addExpense\<close> is: it is never called.
\<close>

theorem parse_failure_asks_for_amount:
  assumes "sent = (case textOverride of None \<Rightarrow> inputValue
                   | Some t \<Rightarrow> if t = [] then inputValue else t)"
    and "trim pf sent \<noteq> []"
    and "parseExpenseMessage sent = None \<or>
         (\<exists>p. parseExpenseMessage sent = Some p \<and> p_amount p = None)"
  shows "handleSend pf parseExpenseMessage addExpense handleAddChatMessage sendClock replyClock
           textOverride inputValue s =
         s\<lparr>chatHistory := chatHistory s @
             [\<lparr>msg_id = numberToString pf (nowMs sendClock), msg_role = User,
               msg_text = sent, timestamp = nowDate sendClock, msg_metadata = None\<rparr>,
              \<lparr>msg_id = numberToString pf (nowMs replyClock + 1), msg_role = Assistant,
               msg_text =
                 ''I couldn't catch that amount. Try saying 'Spent '' @
                 [CHR 0xE2, CHR 0x82, CHR 0xB9] @ ''500 on lunch'.'',
               timestamp = nowDate replyClock, msg_metadata = None\<rparr>]\<rparr> \<and>
         expenses (handleSend pf parseExpenseMessage addExpense handleAddChatMessage sendClock
           replyClock textOverride inputValue s) = expenses s \<and>
         budgets (handleSend pf parseExpenseMessage addExpense handleAddChatMessage sendClock
           replyClock textOverride inputValue s) = budgets s"
proof -
  have sent: "textToSend textOverride inputValue = sent"
    using assms(1) by (simp add: textToSend_def split: option.splits)
  have "handleSend pf parseExpenseMessage addExpense handleAddChatMessage sendClock replyClock
           textOverride inputValue s =
         handleAddChatMessage (assistantMessage pf replyClock clarifyText None)
           (handleAddChatMessage
              (userMessage pf sendClock (textToSend textOverride inputValue)) s)"
    by (rule handleSend_clarify) (use assms(2,3) in \<open>simp_all add: sent\<close>)
  then have "handleSend pf parseExpenseMessage addExpense handleAddChatMessage sendClock replyClock
           textOverride inputValue s =
         s\<lparr>chatHistory := chatHistory s @
             [userMessage pf sendClock sent,
              assistantMessage pf replyClock clarifyText None]\<rparr>"
    by (simp only: handleAddChatMessage_twice sent)
  then show ?thesis
    by (simp add: assistantMessage_def userMessage_def clarifyText_def rupee_def)
qed

theorem parse_failure_asks_for_amount_witness:
  "trim examplePlatform ''2000 on dinner'' \<noteq> [] \<and>
   parseFails ''2000 on dinner'' = None \<and>
   (\<exists>p. parseNoAmount ''2000 on dinner'' = Some p \<and> p_amount p = None) \<and>
   handleSend examplePlatform parseFails (handleAddExpense saveDinner march15 foodState)
     handleAddChatMessage exampleClock exampleClock None ''2000 on dinner'' foodState =
     foodState\<lparr>chatHistory :=
       [\<lparr>msg_id = ''id'', msg_role = User, msg_text = ''2000 on dinner'',
         timestamp = march15, msg_metadata = None\<rparr>,
        \<lparr>msg_id = ''id'', msg_role = Assistant,
         msg_text =
           ''I couldn't catch that amount. Try saying 'Spent '' @
           [CHR 0xE2, CHR 0x82, CHR 0xB9] @ ''500 on lunch'.'',
         timestamp = march15, msg_metadata = None\<rparr>]\<rparr> \<and>
   handleSend examplePlatform parseNoAmount (handleAddExpense saveDinner march15 foodState)
     handleAddChatMessage exampleClock exampleClock (Some []) ''2000 on dinner'' foodState =
     handleSend examplePlatform parseFails (handleAddExpense saveDinner march15 foodState)
     handleAddChatMessage exampleClock exampleClock None ''2000 on dinner'' foodState"
proof -
  have h0: "''2000 on dinner'' =
      (case None of None \<Rightarrow> ''2000 on dinner'' | Some t \<Rightarrow> if t = [] then ''2000 on dinner'' else t)"
    by simp
  have h0': "''2000 on dinner'' =
      (case Some [] of None \<Rightarrow> ''2000 on dinner''
       | Some t \<Rightarrow> if t = [] then ''2000 on dinner'' else t)"
    by simp
  have h1: "trim examplePlatform ''2000 on dinner'' \<noteq> []"
    by (simp add: trim_def isAscii_def isWhiteSpace_def)
  have h2: "parseFails ''2000 on dinner'' = None"
    by (simp add: parseFails_def)
  have h3: "\<exists>p. parseNoAmount ''2000 on dinner'' = Some p \<and> p_amount p = None"
    by (simp add: parseNoAmount_def)
  from parse_failure_asks_for_amount [where parseExpenseMessage = parseFails and
      textOverride = None and inputValue = "''2000 on dinner''" and pf = examplePlatform and
      sent = "''2000 on dinner''" and
      addExpense = "handleAddExpense saveDinner march15 foodState" and
      sendClock = exampleClock and replyClock = exampleClock and s = foodState]
    h0 h1 h2
  have a: "handleSend examplePlatform parseFails (handleAddExpense saveDinner march15 foodState)
     handleAddChatMessage exampleClock exampleClock None ''2000 on dinner'' foodState =
     foodState\<lparr>chatHistory :=
       [\<lparr>msg_id = ''id'', msg_role = User, msg_text = ''2000 on dinner'',
         timestamp = march15, msg_metadata = None\<rparr>,
        \<lparr>msg_id = ''id'', msg_role = Assistant,
         msg_text =
           ''I couldn't catch that amount. Try saying 'Spent '' @
           [CHR 0xE2, CHR 0x82, CHR 0xB9] @ ''500 on lunch'.'',
         timestamp = march15, msg_metadata = None\<rparr>]\<rparr>"
    by (simp add: examplePlatform_def exampleClock_def foodState_def)
  from parse_failure_asks_for_amount [where parseExpenseMessage = parseNoAmount and
      textOverride = "Some []" and inputValue = "''2000 on dinner''" and pf = examplePlatform and
      sent = "''2000 on dinner''" and
      addExpense = "handleAddExpense saveDinner march15 foodState" and
      sendClock = exampleClock and replyClock = exampleClock and s = foodState]
    h0' h1 h3
  have "handleSend examplePlatform parseNoAmount (handleAddExpense saveDinner march15 foodState)
     handleAddChatMessage exampleClock exampleClock (Some []) ''2000 on dinner'' foodState =
     foodState\<lparr>chatHistory :=
       [\<lparr>msg_id = ''id'', msg_role = User, msg_text = ''2000 on dinner'',
         timestamp = march15, msg_metadata = None\<rparr>,
        \<lparr>msg_id = ''id'', msg_role = Assistant,
         msg_text =
           ''I couldn't catch that amount. Try saying 'Spent '' @
           [CHR 0xE2, CHR 0x82, CHR 0xB9] @ ''500 on lunch'.'',
         timestamp = march15, msg_metadata = None\<rparr>]\<rparr>"
    by (simp add: examplePlatform_def exampleClock_def foodState_def)
  with a have b: "handleSend examplePlatform parseNoAmount
     (handleAddExpense saveDinner march15 foodState)
     handleAddChatMessage exampleClock exampleClock (Some []) ''2000 on dinner'' foodState =
     handleSend examplePlatform parseFails (handleAddExpense saveDinner march15 foodState)
     handleAddChatMessage exampleClock exampleClock None ''2000 on dinner'' foodState"
    by simp
  from h1 h2 h3 a b show ?thesis by blast
qed

subsection \<open>Expense intake: a save that fails\<close>

text \<open>
  Claim C3. When the parse yields an amount and \<^verbatim>\<open>saveExpense\<close> returns no canonical
  expense, \<^verbatim>\<open>handleAddExpense\<close> returns the error "I couldn't save that expense. Please
  check your connection." and leaves the state as it received it; the pipeline appends
  the user message and one assistant message with that text, so expenses and budgets are
  unchanged. The text of that reply differs from the text of the reply that the same
  message gets when its parse fails.
\<close>

theorem save_failure_reports_error:
  assumes "sent = (case textOverride of None \<Rightarrow> inputValue
                   | Some t \<Rightarrow> if t = [] then inputValue else t)"
    and "trim pf sent \<noteq> []"
    and "parseExpenseMessage sent = Some p"
    and "p_amount p = Some a"
    and "saveExpense \<lparr>amount = a, category = p_category p, description = p_description p\<rparr>
           (p_date p) = SaveNull"
    and "failingParse sent = None"
  shows "handleAddExpense saveExpense addNow state
           \<lparr>amount = a, category = p_category p, description = p_description p\<rparr> (p_date p) prev =
           (\<lparr>res_expense = None, res_budgetLeft = None,
             res_error = Some ''I couldn't save that expense. Please check your connection.''\<rparr>,
            prev) \<and>
         handleSend pf parseExpenseMessage (handleAddExpense saveExpense addNow state)
           handleAddChatMessage sendClock replyClock textOverride inputValue s =
         s\<lparr>chatHistory := chatHistory s @
             [\<lparr>msg_id = numberToString pf (nowMs sendClock), msg_role = User,
               msg_text = sent, timestamp = nowDate sendClock, msg_metadata = None\<rparr>,
              \<lparr>msg_id = numberToString pf (nowMs replyClock + 1), msg_role = Assistant,
               msg_text = ''I couldn't save that expense. Please check your connection.'',
               timestamp = nowDate replyClock, msg_metadata = None\<rparr>]\<rparr> \<and>
         expenses (handleSend pf parseExpenseMessage (handleAddExpense saveExpense addNow state)
           handleAddChatMessage sendClock replyClock textOverride inputValue s) = expenses s \<and>
         budgets (handleSend pf parseExpenseMessage (handleAddExpense saveExpense addNow state)
           handleAddChatMessage sendClock replyClock textOverride inputValue s) = budgets s \<and>
         msg_text (last (chatHistory
           (handleSend pf parseExpenseMessage (handleAddExpense saveExpense addNow state)
              handleAddChatMessage sendClock replyClock textOverride inputValue s))) \<noteq>
         msg_text (last (chatHistory
           (handleSend pf failingParse (handleAddExpense saveExpense addNow state)
              handleAddChatMessage sendClock replyClock textOverride inputValue s)))"
proof -
  let ?ed = "\<lparr>amount = a, category = p_category p, description = p_description p\<rparr>"
  let ?s1 = "handleAddChatMessage (userMessage pf sendClock (textToSend textOverride inputValue)) s"
  have sent: "textToSend textOverride inputValue = sent"
    using assms(1) by (simp add: textToSend_def split: option.splits)
  have null: "handleAddExpense saveExpense addNow state ?ed (p_date p) prev' =
      (\<lparr>res_expense = None, res_budgetLeft = None, res_error = Some saveFailedText\<rparr>, prev')"
    for prev'
    using assms(5) by (rule handleAddExpense_null)
  have "handleSend pf parseExpenseMessage (handleAddExpense saveExpense addNow state)
           handleAddChatMessage sendClock replyClock textOverride inputValue s =
        handleAddChatMessage (assistantMessage pf replyClock saveFailedText None) ?s1"
    by (rule handleSend_error [where p = p and a = a and sa = ?s1 and
          result = "\<lparr>res_expense = None, res_budgetLeft = None,
                     res_error = Some saveFailedText\<rparr>"])
      (use assms(2,3,4) null [of ?s1] in \<open>simp_all add: texts_distinct sent\<close>)
  then have saved: "handleSend pf parseExpenseMessage (handleAddExpense saveExpense addNow state)
           handleAddChatMessage sendClock replyClock textOverride inputValue s =
         s\<lparr>chatHistory := chatHistory s @
             [userMessage pf sendClock sent,
              assistantMessage pf replyClock saveFailedText None]\<rparr>"
    by (simp only: handleAddChatMessage_twice sent)
  have "handleSend pf failingParse (handleAddExpense saveExpense addNow state)
           handleAddChatMessage sendClock replyClock textOverride inputValue s =
         handleAddChatMessage (assistantMessage pf replyClock clarifyText None)
           (handleAddChatMessage
              (userMessage pf sendClock (textToSend textOverride inputValue)) s)"
    by (rule handleSend_clarify) (use assms(2,6) in \<open>simp_all add: sent\<close>)
  then have failed: "handleSend pf failingParse (handleAddExpense saveExpense addNow state)
           handleAddChatMessage sendClock replyClock textOverride inputValue s =
         s\<lparr>chatHistory := chatHistory s @
             [userMessage pf sendClock sent,
              assistantMessage pf replyClock clarifyText None]\<rparr>"
    by (simp only: handleAddChatMessage_twice sent)
  have differ: "msg_text (assistantMessage pf replyClock saveFailedText None) \<noteq>
      msg_text (assistantMessage pf replyClock clarifyText None)"
    by (simp add: assistantMessage_def texts_distinct)
  show ?thesis
  proof (intro conjI)
    show "handleAddExpense saveExpense addNow state ?ed (p_date p) prev =
        (\<lparr>res_expense = None, res_budgetLeft = None,
          res_error = Some ''I couldn't save that expense. Please check your connection.''\<rparr>,
         prev)"
      using null [of prev] by (simp add: saveFailedText_def)
    show "handleSend pf parseExpenseMessage (handleAddExpense saveExpense addNow state)
           handleAddChatMessage sendClock replyClock textOverride inputValue s =
         s\<lparr>chatHistory := chatHistory s @
             [\<lparr>msg_id = numberToString pf (nowMs sendClock), msg_role = User,
               msg_text = sent, timestamp = nowDate sendClock, msg_metadata = None\<rparr>,
              \<lparr>msg_id = numberToString pf (nowMs replyClock + 1), msg_role = Assistant,
               msg_text = ''I couldn't save that expense. Please check your connection.'',
               timestamp = nowDate replyClock, msg_metadata = None\<rparr>]\<rparr>"
      using saved by (simp add: assistantMessage_def userMessage_def saveFailedText_def)
    show "expenses (handleSend pf parseExpenseMessage (handleAddExpense saveExpense addNow state)
           handleAddChatMessage sendClock replyClock textOverride inputValue s) = expenses s"
      by (simp add: saved)
    show "budgets (handleSend pf parseExpenseMessage (handleAddExpense saveExpense addNow state)
           handleAddChatMessage sendClock replyClock textOverride inputValue s) = budgets s"
      by (simp add: saved)
    show "msg_text (last (chatHistory
           (handleSend pf parseExpenseMessage (handleAddExpense saveExpense addNow state)
              handleAddChatMessage sendClock replyClock textOverride inputValue s))) \<noteq>
         msg_text (last (chatHistory
           (handleSend pf failingParse (handleAddExpense saveExpense addNow state)
              handleAddChatMessage sendClock replyClock textOverride inputValue s)))"
      using differ by (simp add: saved failed)
  qed
qed

theorem save_failure_reports_error_witness:
  "trim examplePlatform ''2000 on dinner'' \<noteq> [] \<and>
   saveReturnsNull dinnerData None = SaveNull \<and>
   parseFails ''2000 on dinner'' = None \<and>
   handleSend examplePlatform parseDinner (handleAddExpense saveReturnsNull march15 foodState)
     handleAddChatMessage exampleClock exampleClock None ''2000 on dinner'' foodState =
     foodState\<lparr>chatHistory :=
       [\<lparr>msg_id = ''id'', msg_role = User, msg_text = ''2000 on dinner'',
         timestamp = march15, msg_metadata = None\<rparr>,
        \<lparr>msg_id = ''id'', msg_role = Assistant,
         msg_text = ''I couldn't save that expense. Please check your connection.'',
         timestamp = march15, msg_metadata = None\<rparr>]\<rparr> \<and>
   msg_text (last (chatHistory
     (handleSend examplePlatform parseDinner (handleAddExpense saveReturnsNull march15 foodState)
        handleAddChatMessage exampleClock exampleClock None ''2000 on dinner'' foodState))) \<noteq>
   msg_text (last (chatHistory
     (handleSend examplePlatform parseFails (handleAddExpense saveReturnsNull march15 foodState)
        handleAddChatMessage exampleClock exampleClock None ''2000 on dinner'' foodState)))"
proof -
  let ?p = "\<lparr>p_amount = Some 2000, p_category = ''Food'', p_description = ''dinner'',
           p_date = None\<rparr>"
  have h0: "''2000 on dinner'' =
      (case None of None \<Rightarrow> ''2000 on dinner'' | Some t \<Rightarrow> if t = [] then ''2000 on dinner'' else t)"
    by simp
  have h1: "trim examplePlatform ''2000 on dinner'' \<noteq> []"
    by (simp add: trim_def isAscii_def isWhiteSpace_def)
  have h2: "parseDinner ''2000 on dinner'' = Some ?p"
    by (simp add: parseDinner_def)
  have h3: "p_amount ?p = Some 2000" by simp
  have h4: "saveReturnsNull \<lparr>amount = 2000, category = p_category ?p,
      description = p_description ?p\<rparr> (p_date ?p) = SaveNull"
    by (simp add: saveReturnsNull_def)
  have h5: "saveReturnsNull dinnerData None = SaveNull" by (simp add: saveReturnsNull_def)
  have h6: "parseFails ''2000 on dinner'' = None" by (simp add: parseFails_def)
  note inst = save_failure_reports_error [where parseExpenseMessage = parseDinner and
      textOverride = None and inputValue = "''2000 on dinner''" and pf = examplePlatform and
      sent = "''2000 on dinner''" and failingParse = parseFails and
      saveExpense = saveReturnsNull and addNow = march15 and state = foodState and
      p = ?p and a = 2000 and prev = foodState and
      sendClock = exampleClock and replyClock = exampleClock and s = foodState,
      OF h0 h1 h2 h3 h4 h6]
  from inst have a: "handleSend examplePlatform parseDinner
     (handleAddExpense saveReturnsNull march15 foodState)
     handleAddChatMessage exampleClock exampleClock None ''2000 on dinner'' foodState =
     foodState\<lparr>chatHistory :=
       [\<lparr>msg_id = ''id'', msg_role = User, msg_text = ''2000 on dinner'',
         timestamp = march15, msg_metadata = None\<rparr>,
        \<lparr>msg_id = ''id'', msg_role = Assistant,
         msg_text = ''I couldn't save that expense. Please check your connection.'',
         timestamp = march15, msg_metadata = None\<rparr>]\<rparr>"
    by (simp add: examplePlatform_def exampleClock_def foodState_def)
  from inst have b: "msg_text (last (chatHistory
     (handleSend examplePlatform parseDinner (handleAddExpense saveReturnsNull march15 foodState)
        handleAddChatMessage exampleClock exampleClock None ''2000 on dinner'' foodState))) \<noteq>
   msg_text (last (chatHistory
     (handleSend examplePlatform parseFails (handleAddExpense saveReturnsNull march15 foodState)
        handleAddChatMessage exampleClock exampleClock None ''2000 on dinner'' foodState)))"
    by blast
  from h1 h5 h6 a b show ?thesis by blast
qed

text \<open>A save that throws is reported in the same way, with its own message.\<close>

lemma save_exception_reports_error:
  assumes "trim pf (textToSend textOverride inputValue) \<noteq> []"
    and "parseExpenseMessage (textToSend textOverride inputValue) = Some p"
    and "p_amount p = Some a"
    and "saveExpense \<lparr>amount = a, category = p_category p, description = p_description p\<rparr>
           (p_date p) = SaveThrows"
  shows "handleSend pf parseExpenseMessage (handleAddExpense saveExpense addNow state)
           handleAddChatMessage sendClock replyClock textOverride inputValue s =
         s\<lparr>chatHistory := chatHistory s @
             [userMessage pf sendClock (textToSend textOverride inputValue),
              assistantMessage pf replyClock addFailedText None]\<rparr> \<and>
         addFailedText \<noteq> clarifyText"
proof (intro conjI)
  let ?ed = "\<lparr>amount = a, category = p_category p, description = p_description p\<rparr>"
  let ?s1 = "handleAddChatMessage (userMessage pf sendClock (textToSend textOverride inputValue)) s"
  have thrown: "handleAddExpense saveExpense addNow state ?ed (p_date p) ?s1 =
      (\<lparr>res_expense = None, res_budgetLeft = None, res_error = Some addFailedText\<rparr>, ?s1)"
    using assms(4) by (rule handleAddExpense_throws)
  have "handleSend pf parseExpenseMessage (handleAddExpense saveExpense addNow state)
           handleAddChatMessage sendClock replyClock textOverride inputValue s =
        handleAddChatMessage (assistantMessage pf replyClock addFailedText None) ?s1"
    by (rule handleSend_error [where p = p and a = a and sa = ?s1 and
          result = "\<lparr>res_expense = None, res_budgetLeft = None,
                     res_error = Some addFailedText\<rparr>"])
      (use assms(1,2,3) thrown in \<open>simp_all add: texts_distinct\<close>)
  then show "handleSend pf parseExpenseMessage (handleAddExpense saveExpense addNow state)
           handleAddChatMessage sendClock replyClock textOverride inputValue s =
         s\<lparr>chatHistory := chatHistory s @
             [userMessage pf sendClock (textToSend textOverride inputValue),
              assistantMessage pf replyClock addFailedText None]\<rparr>"
    by (simp only: handleAddChatMessage_twice)
  show "addFailedText \<noteq> clarifyText" by (rule texts_distinct)
qed

subsection \<open>Expense intake: a save that succeeds\<close>

text \<open>
  For a typed message the pipeline appends the canonical expense and reports the budget
  left as the category limit minus the sum of what was spent in that category this month
  before, and of the new amount.
\<close>

lemma typed_intake_success:
  assumes "trim pf inputValue \<noteq> []"
    and "parseExpenseMessage inputValue = Some p"
    and "p_amount p = Some a"
    and "saveExpense \<lparr>amount = a, category = p_category p, description = p_description p\<rparr>
           (p_date p) = Saved e"
    and "left =
       (case find (\<lambda>b. b_category b = p_category p) (budgets s) of
          None \<Rightarrow> 0 | Some b \<Rightarrow> limit b) -
       (sum_list (map amount
          (filter (\<lambda>x. category x = p_category p \<and> month (date x) = month addNow \<and>
                         fullYear (date x) = fullYear addNow) (expenses s))) + a)"
  shows "typedSend pf parseExpenseMessage saveExpense sendClock addNow replyClock inputValue s =
         s\<lparr>expenses := expenses s @ [e],
           chatHistory := chatHistory s @
             [userMessage pf sendClock inputValue,
              assistantMessage pf replyClock (successText pf e left)
                (Some \<lparr>addedExpense = Some e, budgetLeft = Some left\<rparr>)]\<rparr>"
proof -
  let ?ed = "\<lparr>amount = a, category = p_category p, description = p_description p\<rparr>"
  let ?s1 = "handleAddChatMessage (userMessage pf sendClock inputValue) s"
  have plain: "textToSend None inputValue = inputValue" by (simp add: textToSend_def)
  have add: "handleAddExpense saveExpense addNow s ?ed (p_date p) ?s1 =
      (\<lparr>res_expense = Some e, res_budgetLeft = Some left, res_error = None\<rparr>,
       ?s1\<lparr>expenses := expenses ?s1 @ [e]\<rparr>)"
    using handleAddExpense_saved [where saveExpense = saveExpense and ed = ?ed and
        sd = "p_date p" and e = e and now = addNow and state = s and prev = ?s1]
      assms(4) assms(5) by simp
  have "handleSend pf parseExpenseMessage (handleAddExpense saveExpense addNow s)
          handleAddChatMessage sendClock replyClock None inputValue s =
        handleAddChatMessage (assistantMessage pf replyClock (successText pf e left)
             (Some \<lparr>addedExpense = Some e, budgetLeft = Some left\<rparr>))
          (?s1\<lparr>expenses := expenses ?s1 @ [e]\<rparr>)"
    by (rule handleSend_success [where p = p and a = a and
          result = "\<lparr>res_expense = Some e, res_budgetLeft = Some left, res_error = None\<rparr>"])
      (use assms(1,2,3) add in \<open>simp_all add: plain\<close>)
  then show ?thesis by (simp add: typedSend_def handleAddChatMessage_def)
qed

text \<open>
  For a spoken message the expense is appended in the same way, but the limit and the prior
  spend are read from the state \<open>mounted\<close>.
\<close>

lemma voice_intake_success:
  assumes "trim pf transcript \<noteq> []"
    and "parseExpenseMessage transcript = Some p"
    and "p_amount p = Some a"
    and "saveExpense \<lparr>amount = a, category = p_category p, description = p_description p\<rparr>
           (p_date p) = Saved e"
    and "left =
       (case find (\<lambda>b. b_category b = p_category p) (budgets mounted) of
          None \<Rightarrow> 0 | Some b \<Rightarrow> limit b) -
       (sum_list (map amount
          (filter (\<lambda>x. category x = p_category p \<and> month (date x) = month addNow \<and>
                         fullYear (date x) = fullYear addNow) (expenses mounted))) + a)"
  shows "voiceSend pf parseExpenseMessage saveExpense sendClock addNow replyClock mounted
           transcript s =
         s\<lparr>expenses := expenses s @ [e],
           chatHistory := chatHistory s @
             [userMessage pf sendClock transcript,
              assistantMessage pf replyClock (successText pf e left)
                (Some \<lparr>addedExpense = Some e, budgetLeft = Some left\<rparr>)]\<rparr>"
proof -
  let ?ed = "\<lparr>amount = a, category = p_category p, description = p_description p\<rparr>"
  let ?s1 = "handleAddChatMessage (userMessage pf sendClock transcript) s"
  from assms(1) have "transcript \<noteq> []" by (auto simp: trim_def)
  then have spoken: "textToSend (Some transcript) [] = transcript" by (simp add: textToSend_def)
  have add: "handleAddExpense saveExpense addNow mounted ?ed (p_date p) ?s1 =
      (\<lparr>res_expense = Some e, res_budgetLeft = Some left, res_error = None\<rparr>,
       ?s1\<lparr>expenses := expenses ?s1 @ [e]\<rparr>)"
    using handleAddExpense_saved [where saveExpense = saveExpense and ed = ?ed and
        sd = "p_date p" and e = e and now = addNow and state = mounted and prev = ?s1]
      assms(4) assms(5) by simp
  have "handleSend pf parseExpenseMessage (handleAddExpense saveExpense addNow mounted)
          handleAddChatMessage sendClock replyClock (Some transcript) [] s =
        handleAddChatMessage (assistantMessage pf replyClock (successText pf e left)
             (Some \<lparr>addedExpense = Some e, budgetLeft = Some left\<rparr>))
          (?s1\<lparr>expenses := expenses ?s1 @ [e]\<rparr>)"
    by (rule handleSend_success [where p = p and a = a and
          result = "\<lparr>res_expense = Some e, res_budgetLeft = Some left, res_error = None\<rparr>"])
      (use assms(1,2,3) add in \<open>simp_all add: spoken\<close>)
  then show ?thesis by (simp add: voiceSend_def handleAddChatMessage_def)
qed

text \<open>
  Claim C1. The budget left is to be computed over the expense list as it is immediately
  before the new expense is added. The typed path does so. The voice path reads the
  expense list of the render in which \<^verbatim>\<open>ChatInterface\<close> was mounted: with a Food budget of
  15000 and 12000 spent on Food since the mount, a spoken Food expense of 2000 is stored
  correctly but reported with 13000 left, where the typed path reports 1000.
\<close>

theorem voice_budgetLeft_stale:
  "map msg_metadata (chatHistory
      (voiceSend examplePlatform parseDinner saveDinner exampleClock march15 exampleClock
         foodStateBefore ''2000 on dinner'' foodState)) =
     [None, Some \<lparr>addedExpense = Some dinner, budgetLeft = Some 13000\<rparr>] \<and>
   expenses
      (voiceSend examplePlatform parseDinner saveDinner exampleClock march15 exampleClock
         foodStateBefore ''2000 on dinner'' foodState) = [groceries, dinner] \<and>
   map msg_metadata (chatHistory
      (typedSend examplePlatform parseDinner saveDinner exampleClock march15 exampleClock
         ''2000 on dinner'' foodState)) =
     [None, Some \<lparr>addedExpense = Some dinner, budgetLeft = Some 1000\<rparr>]"
  using voiceText_nonblank exampleText_nonblank
  by (simp add: voiceSend_def typedSend_def handleSend_def handleAddExpense_def
      handleAddChatMessage_def parseDinner_def saveDinner_def foodState_def
      foodStateBefore_def groceries_def march15_def reduceSum_def
      userMessage_def assistantMessage_def Let_def)

subsection \<open>The limit looked up for the budget left\<close>




subsection \<open>Remaining budget\<close>

text \<open>
  Claim C8. The remaining budget of the dashboard is exactly the limit (the sum of all
  budget limits) minus the spend (the sum of the selected expenses), and it is negative
  whenever the spend exceeds the limit. The figure shown is the maximum of zero and that
  difference, so never negative, while the over-budget test reads the signed value.
\<close>

theorem remaining_budget_signed_and_shown:
  "currentBalance bs filtered = sum_list (map limit bs) - sum_list (map amount filtered) \<and>
   (sum_list (map amount filtered) > sum_list (map limit bs) \<longrightarrow> currentBalance bs filtered < 0) \<and>
   shownRemaining bs filtered =
     max 0 (sum_list (map limit bs) - sum_list (map amount filtered)) \<and>
   0 \<le> shownRemaining bs filtered \<and>
   (overBudget bs filtered \<longleftrightarrow> sum_list (map amount filtered) > sum_list (map limit bs))"
  by (auto simp: currentBalance_def shownRemaining_def overBudget_def totalBudget_def
      totalSpent_def reduceSum_sum_list)

theorem remaining_budget_signed_and_shown_witness:
  "sum_list (map amount [groceries, groceries]) > sum_list (map limit (budgets foodState)) \<and>
   currentBalance (budgets foodState) [groceries, groceries] = - 9000 \<and>
   shownRemaining (budgets foodState) [groceries, groceries] = 0 \<and>
   overBudget (budgets foodState) [groceries, groceries] \<and>
   currentBalance (budgets foodState) [groceries] = 3000 \<and>
   shownRemaining (budgets foodState) [groceries] = 3000 \<and>
   \<not> overBudget (budgets foodState) [groceries]"
  using remaining_budget_signed_and_shown [of "budgets foodState" "[groceries, groceries]"]
    remaining_budget_signed_and_shown [of "budgets foodState" "[groceries]"]
  by (simp add: foodState_def groceries_def)

lemma uniqueInOrder_foldl_set:
  "set (foldl (\<lambda>seen x. if x \<in> set seen then seen else seen @ [x]) acc xs) = set acc \<union> set xs"
  by (induction xs arbitrary: acc) auto

lemma uniqueInOrder_foldl_distinct:
  "distinct acc \<Longrightarrow>
   distinct (foldl (\<lambda>seen x. if x \<in> set seen then seen else seen @ [x]) acc xs)"
  by (induction xs arbitrary: acc) auto

lemma set_uniqueInOrder: "set (uniqueInOrder xs) = set xs"
  by (simp add: uniqueInOrder_def uniqueInOrder_foldl_set)

lemma distinct_uniqueInOrder: "distinct (uniqueInOrder xs)"
  by (simp add: uniqueInOrder_def uniqueInOrder_foldl_distinct)

lemma categoryData_map:
  "categoryData bs filtered =
     map (\<lambda>cat. \<lparr>entry_name = cat,
                 entry_value = sum_list (map amount (filter (\<lambda>e. category e = cat) filtered))\<rparr>)
       (filter (\<lambda>cat. 0 < sum_list (map amount (filter (\<lambda>e. category e = cat) filtered)))
          (uniqueInOrder (map b_category bs @ map category filtered)))"
  by (simp add: categoryData_def Let_def filter_map o_def reduceSum_sum_list)

lemma categoryData_names:
  "map entry_name (categoryData bs filtered) =
     filter (\<lambda>cat. 0 < sum_list (map amount (filter (\<lambda>e. category e = cat) filtered)))
       (uniqueInOrder (map b_category bs @ map category filtered))"
  by (simp add: categoryData_map o_def)

lemma filteredExpenses_default:
  "filteredExpenses now None None es =
     filter (\<lambda>e. month (date e) = month now \<and> fullYear (date e) = fullYear now) es"
  by (simp add: filteredExpenses_def Let_def)

text \<open>With a range given, an expense is kept when its date lies between the start (the
  epoch when none is given) and the last millisecond of the end day (of today when none is
  given), both bounds included.\<close>

lemma filteredExpenses_range:
  assumes "startDate \<noteq> None \<or> endDate \<noteq> None"
  shows "e \<in> set (filteredExpenses now startDate endDate es) \<longleftrightarrow>
     e \<in> set es \<and>
     date_le (case startDate of None \<Rightarrow> epoch | Some d \<Rightarrow> d) (date e) \<and>
     date_le (date e) ((case endDate of None \<Rightarrow> now | Some d \<Rightarrow> d)\<lparr>msOfDay := 86399999\<rparr>)"
  using assms by (auto simp: filteredExpenses_def setHours_endOfDay_def Let_def)

lemma filteredExpenses_range_bounds:
  "map expense_id
     (filteredExpenses march15
        (Some \<lparr>fullYear = 2024, month = 2, dayOfMonth = 15, msOfDay = 32400000\<rparr>)
        (Some \<lparr>fullYear = 2024, month = 2, dayOfMonth = 15, msOfDay = 0\<rparr>)
        [februaryRent, groceries,
         dinner\<lparr>date := \<lparr>fullYear = 2024, month = 2, dayOfMonth = 15, msOfDay = 86399999\<rparr>\<rparr>,
         freeSample\<lparr>date := \<lparr>fullYear = 2024, month = 2, dayOfMonth = 16, msOfDay = 0\<rparr>\<rparr>,
         refund\<lparr>date := \<lparr>fullYear = 2024, month = 2, dayOfMonth = 15, msOfDay = 32399999\<rparr>\<rparr>]) =
     [''41'', ''42'']"
  "map expense_id (filteredExpenses march15 None (Some epoch) [februaryRent]) = []"
  "map expense_id
     (filteredExpenses march15
        (Some \<lparr>fullYear = 2024, month = 1, dayOfMonth = 1, msOfDay = 0\<rparr>) None
        [februaryRent, groceries,
         freeSample\<lparr>date := \<lparr>fullYear = 2024, month = 2, dayOfMonth = 15, msOfDay = 86399999\<rparr>\<rparr>,
         refund\<lparr>date := \<lparr>fullYear = 2024, month = 2, dayOfMonth = 16, msOfDay = 0\<rparr>\<rparr>]) =
     [''12'', ''41'', ''43'']"
  by (simp_all add: filteredExpenses_def date_le_def setHours_endOfDay_def epoch_def
      groceries_def februaryRent_def dinner_def freeSample_def refund_def march15_def Let_def)

lemma elem_le_sum_list:
  fixes f :: "'a \<Rightarrow> real"
  assumes "x \<in> set xs" and "\<forall>y \<in> set xs. 0 \<le> f y"
  shows "f x \<le> sum_list (map f xs)"
  using assms
proof (induction xs)
  case Nil
  then show ?case by simp
next
  case (Cons a xs)
  have rest: "0 \<le> sum_list (map f xs)"
    by (rule sum_list_nonneg) (use Cons.prems(2) in auto)
  show ?case
  proof (cases "x = a")
    case True
    with rest show ?thesis by simp
  next
    case False
    with Cons.prems have "x \<in> set xs" and "\<forall>y \<in> set xs. 0 \<le> f y" by simp_all
    then have "f x \<le> sum_list (map f xs)" by (rule Cons.IH)
    moreover have "0 \<le> f a" using Cons.prems(2) by simp
    ultimately show ?thesis by simp
  qed
qed

subsection \<open>Category breakdown\<close>

text \<open>
  Claim C5, as stated, fails. With no budgets and a single expense of amount zero dated
  this month, the expense set is not empty and its category is present, yet the breakdown
  is empty. With a single refund of -50 the summed spend of its category is not zero, yet
  the category has no entry.
\<close>

theorem categoryData_counterexample:
  "[freeSample] \<noteq> [] \<and>
   filteredExpenses march15 None None [freeSample] = [freeSample] \<and>
   categoryData [] (filteredExpenses march15 None None [freeSample]) = [] \<and>
   \<not> (entry_name ` set (categoryData [] (filteredExpenses march15 None None [freeSample])) =
        category ` set [freeSample]) \<and>
   filteredExpenses march15 None None [refund] = [refund] \<and>
   sum_list (map amount (filter (\<lambda>e. category e = ''Shopping'')
      (filteredExpenses march15 None None [refund]))) \<noteq> 0 \<and>
   ''Shopping'' \<notin> entry_name ` set (categoryData [] (filteredExpenses march15 None None [refund]))"
  by (simp add: filteredExpenses_def categoryData_def uniqueInOrder_def reduceSum_def
      freeSample_def refund_def march15_def Let_def)

text \<open>
  Claim C5, amended. \<^verbatim>\<open>categoryData\<close> returns one entry per category, among the budget
  categories and the categories of the range-filtered expenses, whose summed spend over
  the range is greater than zero; the value of each entry is the sum of the amounts of the
  filtered expenses of that category; with no range given the filter keeps the expenses of
  the current calendar month. In particular, with no budgets and filtered expenses whose
  amounts are all positive, it returns one entry per distinct category of the filtered
  expenses.
\<close>

theorem categoryData_breakdown:
  "distinct (map entry_name (categoryData bs (filteredExpenses now startDate endDate es))) \<and>
   entry_name ` set (categoryData bs (filteredExpenses now startDate endDate es)) =
     {c \<in> b_category ` set bs \<union> category ` set (filteredExpenses now startDate endDate es).
        0 < sum_list (map amount (filter (\<lambda>e. category e = c)
              (filteredExpenses now startDate endDate es)))} \<and>
   (\<forall>d \<in> set (categoryData bs (filteredExpenses now startDate endDate es)).
      entry_value d =
        sum_list (map amount (filter (\<lambda>e. category e = entry_name d)
          (filteredExpenses now startDate endDate es)))) \<and>
   filteredExpenses now None None es =
     filter (\<lambda>e. month (date e) = month now \<and> fullYear (date e) = fullYear now) es \<and>
   ((\<forall>e \<in> set (filteredExpenses now startDate endDate es). 0 < amount e) \<longrightarrow>
      entry_name ` set (categoryData [] (filteredExpenses now startDate endDate es)) =
        category ` set (filteredExpenses now startDate endDate es))"
proof (intro conjI impI)
  let ?F = "filteredExpenses now startDate endDate es"
  let ?spent = "\<lambda>c. sum_list (map amount (filter (\<lambda>e. category e = c) ?F))"
  show "distinct (map entry_name (categoryData bs ?F))"
    by (simp only: categoryData_names distinct_filter distinct_uniqueInOrder)
  have names: "set (map entry_name (categoryData bs' ?F)) =
      {c \<in> b_category ` set bs' \<union> category ` set ?F. 0 < ?spent c}" for bs'
    by (simp only: categoryData_names set_filter set_uniqueInOrder set_append set_map)
  from names [of bs] show "entry_name ` set (categoryData bs ?F) =
      {c \<in> b_category ` set bs \<union> category ` set ?F. 0 < ?spent c}"
    by simp
  show "\<forall>d \<in> set (categoryData bs ?F). entry_value d = ?spent (entry_name d)"
    by (auto simp: categoryData_map)
  show "filteredExpenses now None None es =
     filter (\<lambda>e. month (date e) = month now \<and> fullYear (date e) = fullYear now) es"
    by (rule filteredExpenses_default)
  assume pos: "\<forall>e \<in> set ?F. 0 < amount e"
  have "0 < ?spent c" if "c \<in> category ` set ?F" for c
  proof -
    from that obtain e where e: "e \<in> set ?F" "category e = c" by blast
    then have mem: "e \<in> set (filter (\<lambda>e. category e = c) ?F)" by simp
    have nonneg: "\<forall>x \<in> set (filter (\<lambda>e. category e = c) ?F). 0 \<le> amount x"
      using pos by (auto intro: less_imp_le)
    have "amount e \<le> ?spent c"
      using mem nonneg by (rule elem_le_sum_list)
    moreover have "0 < amount e" using pos e(1) by blast
    ultimately show ?thesis by linarith
  qed
  with names [of "[]"] show "entry_name ` set (categoryData [] ?F) = category ` set ?F"
    by auto
qed

theorem categoryData_breakdown_witness:
  "list_all (\<lambda>e. 0 < amount e)
      (filteredExpenses march15 None None [groceries, februaryRent, dinner]) \<and>
   entry_name ` set (categoryData []
      (filteredExpenses march15 None None [groceries, februaryRent, dinner])) =
     category ` set (filteredExpenses march15 None None [groceries, februaryRent, dinner]) \<and>
   categoryData DEFAULT_BUDGETS
      (filteredExpenses march15 None None [groceries, februaryRent, dinner, freeSample]) =
     [\<lparr>entry_name = ''Food'', entry_value = 14000\<rparr>] \<and>
   filteredExpenses march15
      (Some \<lparr>fullYear = 2024, month = 2, dayOfMonth = 1, msOfDay = 0\<rparr>)
      (Some \<lparr>fullYear = 2024, month = 2, dayOfMonth = 15, msOfDay = 0\<rparr>)
      [februaryRent, groceries] = [groceries]"
proof -
  have h: "\<forall>e \<in> set (filteredExpenses march15 None None [groceries, februaryRent, dinner]).
      0 < amount e"
    by (simp add: filteredExpenses_def groceries_def februaryRent_def dinner_def march15_def)
  from categoryData_breakdown [of "[]" march15 None None "[groceries, februaryRent, dinner]"] h
  have a: "entry_name ` set (categoryData []
      (filteredExpenses march15 None None [groceries, februaryRent, dinner])) =
     category ` set (filteredExpenses march15 None None [groceries, februaryRent, dinner])"
    by blast
  have b: "categoryData DEFAULT_BUDGETS
      (filteredExpenses march15 None None [groceries, februaryRent, dinner, freeSample]) =
     [\<lparr>entry_name = ''Food'', entry_value = 14000\<rparr>]"
    by (simp add: filteredExpenses_def categoryData_def uniqueInOrder_def reduceSum_def
        DEFAULT_BUDGETS_def groceries_def februaryRent_def dinner_def freeSample_def
        march15_def Let_def)
  have c: "filteredExpenses march15
      (Some \<lparr>fullYear = 2024, month = 2, dayOfMonth = 1, msOfDay = 0\<rparr>)
      (Some \<lparr>fullYear = 2024, month = 2, dayOfMonth = 15, msOfDay = 0\<rparr>)
      [februaryRent, groceries] = [groceries]"
    by (simp add: filteredExpenses_def date_le_def setHours_endOfDay_def groceries_def
        februaryRent_def Let_def)
  from h have h': "list_all (\<lambda>e. 0 < amount e)
      (filteredExpenses march15 None None [groceries, februaryRent, dinner])"
    by (simp add: list_all_iff)
  from h' a b c show ?thesis by blast
qed

end
